theory Spec2Isabelle
  imports Complex_Main "HOL-Library.AList"
begin

section \<open>JavaScript values handled by the weather service\<close>

text \<open>
  The service (\<^verbatim>\<open>src/app/services/weather.service.ts\<close>) moves untyped JSON between an
  HTTP client, a key-value store and its callers. A JavaScript number is modelled by the
  rational it denotes, or one of the three special values; every finite double is a
  rational. Subtraction and multiplication round the exact result to the nearest double,
  a tie going to the even significand, and overflow to an infinity, as IEEE 754 binary64
  arithmetic does; on integers of magnitude below \<open>2^53\<close>, such as epoch times in
  milliseconds, they are exact. Comparison, \<^verbatim>\<open>Math.max\<close>, \<^verbatim>\<open>Math.min\<close> and \<^verbatim>\<open>Math.round\<close>
  are exact on doubles. The two zeros are identified.
\<close>

datatype jsnum = NaN | NegInf | Fin rat | PosInf

datatype jsval =
    JUndefined
  | JNull
  | JBool bool
  | JNum jsnum
  | JStr string
  | JArr "jsval list"
  | JObj "(string \<times> jsval) list"

text \<open>
  A thrown value: an \<^verbatim>\<open>Error\<close> with its message, a \<^verbatim>\<open>TypeError\<close> with its message,
  or a value rejected by a platform plugin or the HTTP client, given by the string it
  converts to.
\<close>

datatype thrown = Error string | TypeError string | Rejected string

text \<open>\<^verbatim>\<open>'...' + error\<close>: the string conversion of a thrown value.\<close>

fun thrown_str :: "thrown \<Rightarrow> string" where
  "thrown_str (Error m) = (if m = [] then ''Error'' else ''Error: '' @ m)"
| "thrown_str (TypeError m) = (if m = [] then ''TypeError'' else ''TypeError: '' @ m)"
| "thrown_str (Rejected s) = s"

subsection \<open>Numbers\<close>

text \<open>
  The exponent of the unit in the last place of the double nearest to a magnitude \<open>a\<close>:
  the least \<open>u\<close> from \<open>-1074\<close> on with \<open>a < 2^(u + 53)\<close>, and \<open>971\<close> at most. The search
  is bounded by the number of exponents a double has.
\<close>

fun ulp_exponent :: "nat \<Rightarrow> int \<Rightarrow> rat \<Rightarrow> int" where
  "ulp_exponent 0 u a = u"
| "ulp_exponent (Suc n) u a = (if a < 2 powi (u + 53) then u else ulp_exponent n (u + 1) a)"

definition round_half_even :: "rat \<Rightarrow> int" where
  "round_half_even x =
     (let f = \<lfloor>x\<rfloor>; d = x - of_int f
      in if d < 1 / 2 then f else if 1 / 2 < d then f + 1 else if even f then f else f + 1)"

text \<open>
  The double nearest to a rational: the magnitude is rounded to a multiple of its unit in
  the last place, and a result of \<open>2^1024\<close> or more is an infinity.
\<close>

definition round_double :: "rat \<Rightarrow> jsnum" where
  "round_double q =
     (let a = \<bar>q\<bar>;
          u = ulp_exponent 2045 (- 1074) a;
          r = of_int (round_half_even (a / 2 powi u)) * 2 powi u
      in if 2 ^ 1024 \<le> r then (if 0 < q then PosInf else NegInf)
         else Fin (if 0 \<le> q then r else - r))"

text \<open>\<^verbatim>\<open>x - y\<close> on numbers.\<close>

fun js_sub :: "jsnum \<Rightarrow> jsnum \<Rightarrow> jsnum" where
  "js_sub NaN y = NaN"
| "js_sub (Fin a) NaN = NaN"
| "js_sub (Fin a) NegInf = PosInf"
| "js_sub (Fin a) (Fin b) = round_double (a - b)"
| "js_sub (Fin a) PosInf = NegInf"
| "js_sub PosInf NaN = NaN"
| "js_sub PosInf NegInf = PosInf"
| "js_sub PosInf (Fin b) = PosInf"
| "js_sub PosInf PosInf = NaN"
| "js_sub NegInf NaN = NaN"
| "js_sub NegInf NegInf = NaN"
| "js_sub NegInf (Fin b) = NegInf"
| "js_sub NegInf PosInf = NegInf"

text \<open>\<^verbatim>\<open>x * y\<close> on numbers; an infinity times zero is \<^verbatim>\<open>NaN\<close>.\<close>

fun js_inf_times :: "bool \<Rightarrow> jsnum \<Rightarrow> jsnum" where
  "js_inf_times pos NaN = NaN"
| "js_inf_times pos NegInf = (if pos then NegInf else PosInf)"
| "js_inf_times pos PosInf = (if pos then PosInf else NegInf)"
| "js_inf_times pos (Fin b) =
     (if b = 0 then NaN else if (0 < b) = pos then PosInf else NegInf)"

fun js_mul :: "jsnum \<Rightarrow> jsnum \<Rightarrow> jsnum" where
  "js_mul NaN y = NaN"
| "js_mul PosInf y = js_inf_times True y"
| "js_mul NegInf y = js_inf_times False y"
| "js_mul (Fin a) (Fin b) = round_double (a * b)"
| "js_mul (Fin a) NaN = NaN"
| "js_mul (Fin a) PosInf = js_inf_times True (Fin a)"
| "js_mul (Fin a) NegInf = js_inf_times False (Fin a)"

text \<open>\<^verbatim>\<open>x < y\<close> on numbers; false whenever an operand is \<^verbatim>\<open>NaN\<close>.\<close>

fun js_lt :: "jsnum \<Rightarrow> jsnum \<Rightarrow> bool" where
  "js_lt NaN y = False"
| "js_lt NegInf y = (y = PosInf \<or> (case y of Fin b \<Rightarrow> True | _ \<Rightarrow> False))"
| "js_lt (Fin a) y = (case y of Fin b \<Rightarrow> a < b | PosInf \<Rightarrow> True | _ \<Rightarrow> False)"
| "js_lt PosInf y = False"

text \<open>
  \<^verbatim>\<open>Math.max(...xs)\<close> and \<^verbatim>\<open>Math.min(...xs)\<close> on already coerced arguments:
  \<^verbatim>\<open>NaN\<close> if any argument is, else the extreme one, starting from \<^verbatim>\<open>-Infinity\<close>
  (\<^verbatim>\<open>+Infinity\<close>). The engine's limit on the number of spread arguments is not modelled.
\<close>

definition Math_max :: "jsnum list \<Rightarrow> jsnum" where
  "Math_max xs =
     (if NaN \<in> set xs then NaN
      else foldl (\<lambda>highest x. if js_lt highest x then x else highest) NegInf xs)"

definition Math_min :: "jsnum list \<Rightarrow> jsnum" where
  "Math_min xs =
     (if NaN \<in> set xs then NaN
      else foldl (\<lambda>lowest x. if js_lt x lowest then x else lowest) PosInf xs)"

text \<open>\<^verbatim>\<open>Math.round\<close>: the nearest integer, a tie going towards \<^verbatim>\<open>+Infinity\<close>.\<close>

fun Math_round :: "jsnum \<Rightarrow> jsnum" where
  "Math_round (Fin q) = Fin (of_int \<lfloor>q + 1 / 2\<rfloor>)"
| "Math_round x = x"

subsection \<open>Truthiness and property access\<close>

fun truthy :: "jsval \<Rightarrow> bool" where
  "truthy JUndefined = False"
| "truthy JNull = False"
| "truthy (JBool b) = b"
| "truthy (JNum n) = (n \<noteq> NaN \<and> n \<noteq> Fin 0)"
| "truthy (JStr s) = (s \<noteq> [])"
| "truthy (JArr xs) = True"
| "truthy (JObj kvs) = True"

text \<open>
  \<^verbatim>\<open>v.k\<close> for a value \<open>v\<close> that is neither \<^verbatim>\<open>null\<close> nor \<^verbatim>\<open>undefined\<close>, and \<^verbatim>\<open>v?.k\<close>
  for any \<open>v\<close>. The names the service reads (\<^verbatim>\<open>main\<close>, \<^verbatim>\<open>sys\<close>, \<^verbatim>\<open>sunrise\<close>, \<^verbatim>\<open>sunset\<close>,
  \<^verbatim>\<open>list\<close>, \<^verbatim>\<open>temp\<close>, \<^verbatim>\<open>data\<close>, \<^verbatim>\<open>timestamp\<close>) are no built-in property of an array,
  string, number or boolean, so only an object can hold them. An object lists its
  properties in order, each key once.
\<close>

fun js_get :: "jsval \<Rightarrow> string \<Rightarrow> jsval" where
  "js_get (JObj kvs) k = (case map_of kvs k of None \<Rightarrow> JUndefined | Some v \<Rightarrow> v)"
| "js_get v k = JUndefined"

fun is_nullish :: "jsval \<Rightarrow> bool" where
  "is_nullish JUndefined = True"
| "is_nullish JNull = True"
| "is_nullish v = False"

fun Array_isArray :: "jsval \<Rightarrow> bool" where
  "Array_isArray (JArr xs) = True"
| "Array_isArray v = False"

section \<open>The platform\<close>

text \<open>
  What the JavaScript engine and the build supply and the service does not define:
  the API key of \<^verbatim>\<open>environment.weatherApiKey\<close>, the conversion of a number to a string in
  a template literal and by \<^verbatim>\<open>toFixed\<close>, the conversion to a number of a string, array or
  object (taken not to throw), the wording of the \<^verbatim>\<open>TypeError\<close> for reading a property of
  \<^verbatim>\<open>null\<close> or \<^verbatim>\<open>undefined\<close>, the offset in minutes of the caller's time zone at an instant
  (epoch milliseconds), and the separator the \<^verbatim>\<open>en-US\<close> locale data puts before
  \<^verbatim>\<open>AM\<close>/\<^verbatim>\<open>PM\<close>.
\<close>

record platform =
  api_key :: string
  num_to_string :: "jsnum \<Rightarrow> string"
  to_fixed :: "nat \<Rightarrow> jsnum \<Rightarrow> string"
  coerce_number :: "jsval \<Rightarrow> jsnum"
  type_error_msg :: "jsval \<Rightarrow> string \<Rightarrow> string"
  tz_offset :: "int \<Rightarrow> int"
  period_sep :: string

text \<open>\<^verbatim>\<open>ToNumber\<close>, applied by \<^verbatim>\<open>-\<close>, \<^verbatim>\<open>*\<close>, \<^verbatim>\<open>Math.max\<close> and \<^verbatim>\<open>Math.min\<close>.\<close>

fun to_number :: "platform \<Rightarrow> jsval \<Rightarrow> jsnum" where
  "to_number p JUndefined = NaN"
| "to_number p JNull = Fin 0"
| "to_number p (JBool b) = Fin (if b then 1 else 0)"
| "to_number p (JNum n) = n"
| "to_number p v = coerce_number p v"

text \<open>\<^verbatim>\<open>v.k\<close> for any \<open>v\<close>: reading a property of \<^verbatim>\<open>null\<close> or \<^verbatim>\<open>undefined\<close> throws.\<close>

definition get_prop :: "platform \<Rightarrow> jsval \<Rightarrow> string \<Rightarrow> thrown + jsval" where
  "get_prop p v k =
     (if is_nullish v then Inl (TypeError (type_error_msg p v k)) else Inr (js_get v k))"

subsection \<open>Dates\<close>

text \<open>
  \<^verbatim>\<open>new Date(ms)\<close>: the time value, an integer number of milliseconds of magnitude at most
  \<open>8.64 * 10^15\<close>, or none (an invalid date).
\<close>

fun new_Date :: "jsnum \<Rightarrow> int option" where
  "new_Date (Fin q) =
     (if \<bar>q\<bar> \<le> 8640000000000000 then Some (if 0 \<le> q then \<lfloor>q\<rfloor> else \<lceil>q\<rceil>) else None)"
| "new_Date x = None"

definition digit_char :: "nat \<Rightarrow> char" where
  "digit_char n = ''0123456789'' ! (n mod 10)"

definition two_digits :: "nat \<Rightarrow> string" where
  "two_digits n = [digit_char (n div 10), digit_char n]"

definition hour_str :: "nat \<Rightarrow> string" where
  "hour_str h = (if h < 10 then [digit_char h] else two_digits h)"

definition clock12 :: "string \<Rightarrow> nat \<Rightarrow> nat \<Rightarrow> bool \<Rightarrow> string" where
  "clock12 sep h m pm = hour_str h @ '':'' @ two_digits m @ sep @ (if pm then ''PM'' else ''AM'')"

text \<open>
  \<^verbatim>\<open>date.toLocaleTimeString('en-US', { hour: 'numeric', minute: '2-digit', hour12: true })\<close>:
  the hour from 1 to 12, the minute on two digits and the day period, in the caller's
  time zone; \<^verbatim>\<open>Invalid Date\<close> for an invalid date.
\<close>

definition toLocaleTimeString :: "platform \<Rightarrow> int option \<Rightarrow> string" where
  "toLocaleTimeString p d =
     (case d of
        None \<Rightarrow> ''Invalid Date''
      | Some ms \<Rightarrow>
          (let minute_of_day = nat (((ms + tz_offset p ms * 60000) div 60000) mod 1440);
               h24 = minute_of_day div 60
           in clock12 (period_sep p)
                (if h24 mod 12 = 0 then 12 else h24 mod 12) (minute_of_day mod 60) (12 \<le> h24)))"

text \<open>A string is a 12-hour clock time: hour 1 to 12, minute 00 to 59, \<^verbatim>\<open>AM\<close> or \<^verbatim>\<open>PM\<close>.\<close>

definition is_clock12 :: "string \<Rightarrow> string \<Rightarrow> bool" where
  "is_clock12 sep s =
     (\<exists>h \<in> {1..12}. \<exists>m \<in> {0..<60}. \<exists>pm \<in> {False, True}. s = clock12 sep h m pm)"

section \<open>The world the service runs in\<close>

text \<open>
  The collaborators are state: the connectivity the network plugin reports, the key-value
  store, the wall clock in epoch milliseconds, what the HTTP client answers for each URL,
  what the geolocation plugin answers, and the trace of what the service has asked of them
  and shown to the user. Every asynchronous call takes some time, as does an alert the user
  has to dismiss: \<open>delays\<close> lists how long each one in turn takes (nothing once the list is
  used up). The store is taken to be created and to work; a missing key reads as
  \<^verbatim>\<open>null\<close>. One run of a model function is one call of the method followed by one
  subscription to the observable it returns.
\<close>

datatype event =
    NetStatus
  | StoreGet string
  | StoreSet string jsval
  | StoreClear
  | HttpGet string
  | GeoRequest
  | Alert string

record world =
  net_connected :: bool
  store :: "string \<rightharpoonup> jsval"
  clock :: nat
  delays :: "nat list"
  http :: "string \<Rightarrow> thrown + jsval"
  geo :: "thrown + jsnum \<times> jsnum"
  trace :: "event list"

definition emit :: "event \<Rightarrow> world \<Rightarrow> world" where
  "emit e w = w\<lparr>trace := trace w @ [e]\<rparr>"

definition elapse :: "world \<Rightarrow> world" where
  "elapse w =
     (case delays w of [] \<Rightarrow> w | d # ds \<Rightarrow> w\<lparr>clock := clock w + d, delays := ds\<rparr>)"

definition Date_now :: "world \<Rightarrow> jsnum" where
  "Date_now w = Fin (of_nat (clock w))"

definition alert :: "string \<Rightarrow> world \<Rightarrow> world" where
  "alert msg w = elapse (emit (Alert msg) w)"

definition storage_get :: "string \<Rightarrow> world \<Rightarrow> jsval \<times> world" where
  "storage_get k w =
     ((case store w k of None \<Rightarrow> JNull | Some v \<Rightarrow> v), elapse (emit (StoreGet k) w))"

text \<open>
  \<^verbatim>\<open>storage.set(k, v)\<close> as it is issued; a caller that awaits it lets time pass after it.
\<close>

definition storage_set :: "string \<Rightarrow> jsval \<Rightarrow> world \<Rightarrow> world" where
  "storage_set k v w = emit (StoreSet k v) (w\<lparr>store := (store w)(k \<mapsto> v)\<rparr>)"


definition http_get :: "string \<Rightarrow> world \<Rightarrow> (thrown + jsval) \<times> world" where
  "http_get url w = (http w url, elapse (emit (HttpGet url) w))"

definition Geolocation_getCurrentPosition :: "world \<Rightarrow> (thrown + jsnum \<times> jsnum) \<times> world" where
  "Geolocation_getCurrentPosition w = (geo w, elapse (emit GeoRequest w))"

section \<open>The service\<close>

text \<open>
  The methods that resolve the location, fetch through the cache, shape the weather data
  and clear the cache. The selected-location subject, \<^verbatim>\<open>setSelectedLocation\<close> and
  \<^verbatim>\<open>initialize\<close> are not modelled.
\<close>

definition isOnline :: "world \<Rightarrow> bool \<times> world" where
  "isOnline w = (net_connected w, elapse (emit NetStatus w))"

definition getCityName :: "platform \<Rightarrow> jsnum \<Rightarrow> jsnum \<Rightarrow> world \<Rightarrow> (thrown + jsval) \<times> world" where
  "getCityName p latitude longitude w =
     (case http_get (''https://nominatim.openstreetmap.org/reverse?format=json&lat=''
                      @ num_to_string p latitude @ ''&lon='' @ num_to_string p longitude) w of
        (Inr response, w1) \<Rightarrow> (Inr response, w1)
      | (Inl error, w1) \<Rightarrow> (Inl (Error ''Failed to get city name.''), w1))"

text \<open>The body of the \<^verbatim>\<open>try\<close> block of \<^verbatim>\<open>getCurrentLocation\<close>.\<close>

definition getCurrentLocation_try :: "platform \<Rightarrow> world \<Rightarrow> (thrown + jsval) \<times> world" where
  "getCurrentLocation_try p w =
     (case isOnline w of (online, w1) \<Rightarrow>
        if \<not> online then
          (case storage_get ''currentLocation'' w1 of (cachedLocation, w2) \<Rightarrow>
             if truthy cachedLocation then (Inr cachedLocation, w2)
             else (Inl (Error ''No cached location available while offline.''),
                   alert ''You are offline and no cached location is available.'' w2))
        else
          (case Geolocation_getCurrentPosition w1 of
             (Inl error, w2) \<Rightarrow> (Inl error, w2)
           | (Inr (latitude, longitude), w2) \<Rightarrow>
               (case getCityName p latitude longitude w2 of
                  (Inl error, w3) \<Rightarrow> (Inl error, w3)
                | (Inr cityName, w3) \<Rightarrow>
                    (let location = JObj [(''latitude'', JNum latitude),
                                          (''longitude'', JNum longitude),
                                          (''city'', cityName)]
                     in (Inr location, elapse (storage_set ''currentLocation'' location w3))))))"

definition getCurrentLocation :: "platform \<Rightarrow> world \<Rightarrow> (thrown + jsval) \<times> world" where
  "getCurrentLocation p w =
     (case getCurrentLocation_try p w of
        (Inr location, w1) \<Rightarrow> (Inr location, w1)
      | (Inl error, w1) \<Rightarrow>
          (Inl error, alert (''Error getting location: '' @ thrown_str error) w1))"

text \<open>The cache entry \<^verbatim>\<open>{ data, timestamp }\<close>.\<close>

definition cache_entry :: "jsval \<Rightarrow> jsnum \<Rightarrow> jsval" where
  "cache_entry data timestamp = JObj [(''data'', data), (''timestamp'', JNum timestamp)]"

definition default_maxAge :: jsnum where
  "default_maxAge = Fin (10 * 60 * 1000)"

definition fetchDataWithCache ::
  "platform \<Rightarrow> string \<Rightarrow> string \<Rightarrow> jsnum \<Rightarrow> world \<Rightarrow> (thrown + jsval) \<times> world" where
  "fetchDataWithCache p endpoint cacheKey maxAge w =
     (case isOnline w of (online, w1) \<Rightarrow>
        if \<not> online then
          (case storage_get cacheKey w1 of (cachedData, w2) \<Rightarrow>
             if truthy cachedData \<and>
                js_lt (js_sub (Date_now w2) (to_number p (js_get cachedData ''timestamp''))) maxAge
             then (Inr (js_get cachedData ''data''), w2)
             else (Inl (Error ''No valid cached data available''), w2))
        else
          (case http_get endpoint w1 of
             (Inr data, w2) \<Rightarrow>
               (Inr data, storage_set cacheKey (cache_entry data (Date_now w2)) w2)
           | (Inl error, w2) \<Rightarrow>
               (Inl (Error ''Failed to fetch data.''),
                alert (''Error fetching data:'' @ thrown_str error) w2)))"

definition convertUnixToLocalTime :: "platform \<Rightarrow> jsval \<Rightarrow> string" where
  "convertUnixToLocalTime p timestamp =
     toLocaleTimeString p (new_Date (js_mul (to_number p timestamp) (Fin 1000)))"

text \<open>
  The function \<^verbatim>\<open>getWeatherData\<close> maps over the fetched data. Only an object has a truthy
  \<^verbatim>\<open>main\<close>, so the spread \<^verbatim>\<open>{ ...data, sunrise: \<dots>, sunset: \<dots> }\<close> is of an object: its
  properties in order, \<^verbatim>\<open>sunrise\<close> and \<^verbatim>\<open>sunset\<close> replaced where they stand or added at the
  end.
\<close>

definition with_sun_times :: "platform \<Rightarrow> jsval \<Rightarrow> jsval" where
  "with_sun_times p data =
     (if truthy (js_get data ''main'') then
        (let sys = (if truthy (js_get data ''sys'') then js_get data ''sys'' else JObj []);
             sunrise = js_get sys ''sunrise'';
             sunset = js_get sys ''sunset''
         in case data of
              JObj kvs \<Rightarrow>
                JObj (AList.update ''sunset''
                        (if truthy sunset then JStr (convertUnixToLocalTime p sunset) else JNull)
                     (AList.update ''sunrise''
                        (if truthy sunrise then JStr (convertUnixToLocalTime p sunrise) else JNull)
                      kvs))
            | _ \<Rightarrow> data)
      else data)"

text \<open>The \<^verbatim>\<open>url\<close> and the \<^verbatim>\<open>cacheKey\<close> of \<^verbatim>\<open>getWeatherData\<close>.\<close>

definition weather_url :: "platform \<Rightarrow> jsnum \<Rightarrow> jsnum \<Rightarrow> string" where
  "weather_url p latitude longitude =
     ''https://api.openweathermap.org/data/2.5/weather?lat='' @ num_to_string p latitude
       @ ''&lon='' @ num_to_string p longitude @ ''&units=metric&appid='' @ api_key p"

definition weather_cacheKey :: "platform \<Rightarrow> jsnum \<Rightarrow> jsnum \<Rightarrow> string" where
  "weather_cacheKey p latitude longitude =
     ''weather_current_'' @ to_fixed p 6 latitude @ ''_'' @ to_fixed p 6 longitude"

definition getWeatherData ::
  "platform \<Rightarrow> jsnum \<Rightarrow> jsnum \<Rightarrow> world \<Rightarrow> (thrown + jsval) \<times> world" where
  "getWeatherData p latitude longitude w =
     (let url = weather_url p latitude longitude;
          cacheKey = weather_cacheKey p latitude longitude
      in case fetchDataWithCache p url cacheKey default_maxAge w of
           (Inr data, w1) \<Rightarrow> (Inr (with_sun_times p data), w1)
         | (Inl error, w1) \<Rightarrow>
             (Inl (Error ''Failed to fetch weather data.''),
              alert (''Error fetching weather data: '' @ thrown_str error) w1))"

definition getWeeklyWeather ::
  "platform \<Rightarrow> jsnum \<Rightarrow> jsnum \<Rightarrow> world \<Rightarrow> (thrown + jsval) \<times> world" where
  "getWeeklyWeather p latitude longitude w =
     (let url = ''https://api.openweathermap.org/data/2.5/forecast?lat='' @ num_to_string p latitude
                @ ''&lon='' @ num_to_string p longitude @ ''&units=metric&appid='' @ api_key p
      in fetchDataWithCache p url
           (''weekly_forecast_'' @ num_to_string p latitude @ ''_'' @ num_to_string p longitude)
           default_maxAge w)"

definition getHourlyWeather ::
  "platform \<Rightarrow> jsnum \<Rightarrow> jsnum \<Rightarrow> world \<Rightarrow> (thrown + jsval) \<times> world" where
  "getHourlyWeather p latitude longitude w =
     (let url = ''https://api.openweathermap.org/data/2.5/forecast?lat='' @ num_to_string p latitude
                @ ''&lon='' @ num_to_string p longitude @ ''&units=metric&appid='' @ api_key p;
          cacheKey = ''weather_'' @ to_fixed p 6 latitude @ ''_'' @ to_fixed p 6 longitude
      in fetchDataWithCache p url cacheKey default_maxAge w)"

definition getVisibilityData ::
  "platform \<Rightarrow> jsnum \<Rightarrow> jsnum \<Rightarrow> world \<Rightarrow> (thrown + jsval) \<times> world" where
  "getVisibilityData p latitude longitude w = getWeatherData p latitude longitude w"

record high_low =
  high :: jsnum
  low :: jsnum

text \<open>\<^verbatim>\<open>data.list.map(entry => entry.main.temp)\<close>: the first failing entry throws.\<close>

definition entry_temp :: "platform \<Rightarrow> jsval \<Rightarrow> thrown + jsval" where
  "entry_temp p entry =
     (case get_prop p entry ''main'' of
        Inl error \<Rightarrow> Inl error
      | Inr main \<Rightarrow> get_prop p main ''temp'')"

fun map_temps :: "platform \<Rightarrow> jsval list \<Rightarrow> thrown + jsval list" where
  "map_temps p [] = Inr []"
| "map_temps p (entry # entries) =
     (case entry_temp p entry of
        Inl error \<Rightarrow> Inl error
      | Inr temp \<Rightarrow>
          (case map_temps p entries of
             Inl error \<Rightarrow> Inl error
           | Inr temps \<Rightarrow> Inr (temp # temps)))"

text \<open>The function \<^verbatim>\<open>getHighLowTemperature\<close> maps over the weekly data.\<close>

definition high_low_of :: "platform \<Rightarrow> jsval \<Rightarrow> thrown + high_low" where
  "high_low_of p data =
     (if truthy data \<and> truthy (js_get data ''list'') \<and> Array_isArray (js_get data ''list'') then
        (case js_get data ''list'' of
           JArr entries \<Rightarrow>
             (case map_temps p entries of
                Inl error \<Rightarrow> Inl error
              | Inr temps \<Rightarrow>
                  Inr \<lparr>high = Math_round (Math_max (map (to_number p) temps)),
                       low = Math_round (Math_min (map (to_number p) temps))\<rparr>)
         | _ \<Rightarrow> Inl (Error ''Forecast data is invalid.''))
      else Inl (Error ''Forecast data is invalid.''))"

definition getHighLowTemperature ::
  "platform \<Rightarrow> jsnum \<Rightarrow> jsnum \<Rightarrow> world \<Rightarrow> (thrown + high_low) \<times> world" where
  "getHighLowTemperature p latitude longitude w =
     (case getWeeklyWeather p latitude longitude w of
        (Inr data, w1) \<Rightarrow>
          (case high_low_of p data of
             Inr result \<Rightarrow> (Inr result, w1)
           | Inl error \<Rightarrow>
               (Inl (Error (''Failed to fetch high/low temperatures: '' @ thrown_str error)), w1))
      | (Inl error, w1) \<Rightarrow>
          (Inl (Error (''Failed to fetch high/low temperatures: '' @ thrown_str error)), w1))"


section \<open>Example platform and worlds\<close>

text \<open>
  A platform for the examples, which all ask for the coordinates 0, 0: it writes every
  number as zero, converts no string, array or object to a number, and is on UTC.
\<close>

definition example_platform :: platform where
  "example_platform =
     \<lparr>api_key = ''KEY'',
      num_to_string = (\<lambda>n. ''0''),
      to_fixed = (\<lambda>digits n. ''0.000000''),
      coerce_number = (\<lambda>v. NaN),
      type_error_msg = (\<lambda>v k. ''Cannot read properties of undefined (reading '' @ k @ '')''),
      tz_offset = (\<lambda>ms. 0),
      period_sep = '' ''\<rparr>"

text \<open>An online device with an empty store, whose every HTTP request is answered by \<open>response\<close>.\<close>

definition online_world :: "jsval \<Rightarrow> world" where
  "online_world response =
     \<lparr>net_connected = True,
      store = Map.empty,
      clock = 1700000300000,
      delays = [3, 250, 40],
      http = (\<lambda>url. Inr response),
      geo = Inr (Fin 0, Fin 0),
      trace = []\<rparr>"

text \<open>
  An offline device whose store holds \<open>cached\<close> under \<open>key\<close>; every HTTP request and the
  geolocation request fail.
\<close>

definition offline_world :: "string \<Rightarrow> jsval \<Rightarrow> world" where
  "offline_world key cached =
     \<lparr>net_connected = False,
      store = [key \<mapsto> cached],
      clock = 1700000300000,
      delays = [3, 12],
      http = (\<lambda>url. Inl (Rejected ''[object Object]'')),
      geo = Inl (Rejected ''location unavailable''),
      trace = []\<rparr>"

text \<open>
  An offline device whose clock reads \<open>now\<close> and does not move, and whose store holds
  \<open>cached\<close> under \<open>key\<close>.
\<close>

definition offline_world_at :: "nat \<Rightarrow> string \<Rightarrow> jsval \<Rightarrow> world" where
  "offline_world_at now key cached =
     \<lparr>net_connected = False,
      store = [key \<mapsto> cached],
      clock = now,
      delays = [],
      http = (\<lambda>url. Inl (Rejected ''[object Object]'')),
      geo = Inl (Rejected ''location unavailable''),
      trace = []\<rparr>"

text \<open>A forecast response with three entries, and a current-weather response.\<close>

definition example_forecast :: jsval where
  "example_forecast =
     JObj [(''cod'', JStr ''200''),
           (''list'', JArr [JObj [(''main'', JObj [(''temp'', JNum (Fin 3.2))])],
                            JObj [(''main'', JObj [(''temp'', JNum (Fin (-1.7)))])],
                            JObj [(''main'', JObj [(''temp'', JNum (Fin 10.0))])]])]"

definition example_weather :: jsval where
  "example_weather =
     JObj [(''main'', JObj [(''temp'', JNum (Fin 21))]),
           (''sys'', JObj [(''sunrise'', JNum (Fin 1700000000))]),
           (''name'', JStr ''Manila'')]"

section \<open>Facts about the world's bookkeeping\<close>

lemmas run_defs = getWeatherData_def getWeeklyWeather_def fetchDataWithCache_def isOnline_def
  http_get_def storage_get_def storage_set_def alert_def elapse_def emit_def Date_now_def
  weather_url_def weather_cacheKey_def default_maxAge_def cache_entry_def
  online_world_def offline_world_def offline_world_at_def example_platform_def Let_def

section \<open>Facts about rounding to a double\<close>

lemma ulp_exponent_le:
  "u0 \<le> v \<Longrightarrow> nat (v - u0) \<le> n \<Longrightarrow> a < 2 powi (v + 53) \<Longrightarrow> ulp_exponent n u0 a \<le> v"
proof (induction n arbitrary: u0)
  case 0
  then show ?case by simp
next
  case (Suc n)
  show ?case
  proof (cases "a < 2 powi (u0 + 53)")
    case True
    then show ?thesis using Suc.prems(1) by simp
  next
    case False
    then have "u0 \<noteq> v" using Suc.prems(3) by auto
    then have "ulp_exponent n (u0 + 1) a \<le> v"
      using Suc.prems by (intro Suc.IH) auto
    then show ?thesis using False by simp
  qed
qed

lemma ulp_exponent_found:
  "u0 \<le> u \<Longrightarrow> nat (u - u0) \<le> n \<Longrightarrow> (u0 < u \<Longrightarrow> 2 powi (u + 52) \<le> a) \<Longrightarrow> a < 2 powi (u + 53)
   \<Longrightarrow> ulp_exponent n u0 a = u"
proof (induction n arbitrary: u0)
  case 0
  then show ?case by simp
next
  case (Suc n)
  show ?case
  proof (cases "a < 2 powi (u0 + 53)")
    case True
    have "u0 = u"
    proof (rule ccontr)
      assume "u0 \<noteq> u"
      then have lt: "u0 < u" using Suc.prems(1) by simp
      then have "2 powi (u + 52) \<le> a" using Suc.prems(3) by simp
      moreover have "(2::rat) powi (u0 + 53) \<le> 2 powi (u + 52)"
        using lt by (intro power_int_increasing) auto
      ultimately show False using True by simp
    qed
    then show ?thesis using True by simp
  next
    case False
    then have "u0 \<noteq> u" using Suc.prems(4) by auto
    then have lt: "u0 < u" using Suc.prems(1) by simp
    have "ulp_exponent n (u0 + 1) a = u"
      using lt Suc.prems by (intro Suc.IH) auto
    then show ?thesis using False by simp
  qed
qed

lemma round_half_even_of_int: "round_half_even (of_int k) = k"
  by (simp add: round_half_even_def)

text \<open>An integer of magnitude below \<open>2^53\<close> is a double: rounding leaves it as it is.\<close>

lemma round_double_of_int:
  assumes "\<bar>n\<bar> < 2 ^ 53"
  shows "round_double (of_int n) = Fin (of_int n)"
proof -
  define a :: rat where "a = \<bar>of_int n\<bar>"
  define u where "u = ulp_exponent 2045 (- 1074) a"
  have a_int: "a = of_int \<bar>n\<bar>" by (simp add: a_def)
  have "(of_int \<bar>n\<bar> :: rat) < of_int (2 ^ 53)"
    using assms by (simp only: of_int_less_iff)
  then have a53: "a < 2 ^ 53" by (simp add: a_int)
  then have "a < 2 powi (0 + 53)" by simp
  then have u0: "u \<le> 0"
    unfolding u_def by (intro ulp_exponent_le) simp_all
  define k where "k = \<bar>n\<bar> * 2 ^ nat (- u)"
  have pw: "(2::rat) powi u = 1 / 2 ^ nat (- u)"
    using u0 by (cases "u = 0") (simp_all add: power_int_def field_simps)
  have quot: "a / 2 powi u = of_int k"
    by (simp add: pw a_int k_def)
  have "rat_of_int (round_half_even (a / 2 powi u)) = of_int k"
    by (simp only: quot round_half_even_of_int)
  moreover have "of_int k * 2 powi u = a"
    by (simp add: pw k_def a_int)
  ultimately have r: "of_int (round_half_even (a / 2 powi u)) * 2 powi u = a"
    by simp
  have small: "\<not> (2::rat) ^ 1024 \<le> a"
  proof -
    have "(2::rat) ^ 53 \<le> 2 ^ 1024" by (intro power_increasing) simp_all
    then show ?thesis using a53 by linarith
  qed
  have "round_double (of_int n) = Fin (if (0::rat) \<le> of_int n then a else - a)"
    unfolding round_double_def Let_def a_def [symmetric] u_def [symmetric] r
    using small by simp
  also have "(if (0::rat) \<le> of_int n then a else - a) = of_int n"
    by (simp add: a_def)
  finally show ?thesis .
qed

lemma round_double_numeral:
  "(numeral k :: int) < 2 ^ 53 \<Longrightarrow> round_double (numeral k) = Fin (numeral k)"
  using round_double_of_int [of "numeral k"] by simp

lemma round_double_neg_numeral:
  "(numeral k :: int) < 2 ^ 53 \<Longrightarrow> round_double (- numeral k) = Fin (- numeral k)"
  using round_double_of_int [of "- numeral k"] by simp

lemma round_double_0: "round_double 0 = Fin 0"
  using round_double_of_int [of 0] by simp

lemma round_double_1: "round_double 1 = Fin 1"
  using round_double_of_int [of 1] by simp

lemmas round_exact = round_double_numeral round_double_neg_numeral round_double_0 round_double_1

text \<open>
  Where the exact result is no double it is rounded: \<open>15 - 2^-60\<close> is 15 in doubles, so
  an entry stamped \<open>2^-60\<close> is not younger than 15 ms at clock 15.
\<close>

lemma js_sub_rounds: "js_sub (Fin 15) (Fin (1 / 2 ^ 60)) = Fin 15"
proof -
  define a :: rat where "a = 15 - 1 / 2 ^ 60"
  have u: "ulp_exponent 2045 (- 1074) a = - 49"
    by (rule ulp_exponent_found) (simp_all add: a_def power_int_minus_divide)
  have fl: "\<lfloor>a / 2 powi (- 49)\<rfloor> = 15 * 2 ^ 49 - 1"
    by (simp add: a_def power_int_minus_divide floor_eq_iff)
  have rhe: "round_half_even (a / 2 powi (- 49)) = 15 * 2 ^ 49"
    unfolding round_half_even_def Let_def fl by (simp add: a_def power_int_minus_divide)
  have apos: "\<bar>a\<bar> = a" by (simp add: a_def)
  have "round_double a = Fin 15"
    unfolding round_double_def Let_def apos u rhe
    by (simp add: a_def power_int_minus_divide)
  then show ?thesis by (simp add: a_def)
qed

lemma js_sub_NaN: "js_sub x NaN = NaN"
  by (cases x) simp_all

lemma not_truthy_number: "\<not> truthy v \<Longrightarrow> to_number p (js_get v k) = NaN"
  by (cases v) simp_all

lemma store_elapse: "store (elapse w) = store w"
  by (simp add: elapse_def split: list.splits)

lemma trace_elapse: "trace (elapse w) = trace w"
  by (simp add: elapse_def split: list.splits)

lemma clock_elapse: "clock w \<le> clock (elapse w)"
  by (simp add: elapse_def split: list.splits)


lemma store_emit: "store (emit e w) = store w"
  by (simp add: emit_def)

lemma trace_emit: "trace (emit e w) = trace w @ [e]"
  by (simp add: emit_def)

lemma clock_emit: "clock (emit e w) = clock w"
  by (simp add: emit_def)


section \<open>The cache-aware fetcher\<close>

text \<open>
  Claim C1. Offline, \<^verbatim>\<open>fetchDataWithCache(endpoint, cacheKey, maxAge)\<close> returns the \<^verbatim>\<open>data\<close>
  of what is stored under \<open>cacheKey\<close> exactly when something is stored there and
  \<^verbatim>\<open>now - timestamp < maxAge\<close> holds of its \<^verbatim>\<open>timestamp\<close>, as JavaScript computes it and
  with \<open>now\<close> the clock when the store has answered; in every other case (no entry, a
  stale entry, a stored value with no usable timestamp) it fails with
  \<^verbatim>\<open>No valid cached data available\<close>. For an entry \<^verbatim>\<open>{ data: d, timestamp: t }\<close> that is:
  \<open>d\<close> when \<^verbatim>\<open>now - t < maxAge\<close>, the error otherwise. It asks for the network status and
  reads the store, and does nothing else: no HTTP request, no write.
\<close>

theorem fetchDataWithCache_offline:
  assumes "\<not> net_connected w"
  shows "fst (fetchDataWithCache p endpoint cacheKey maxAge w)
           = (case store w cacheKey of
                None \<Rightarrow> Inl (Error ''No valid cached data available'')
              | Some v \<Rightarrow>
                  if js_lt (js_sub (Date_now (snd (fetchDataWithCache p endpoint cacheKey maxAge w)))
                                   (to_number p (js_get v ''timestamp''))) maxAge
                  then Inr (js_get v ''data'')
                  else Inl (Error ''No valid cached data available''))
       \<and> (store w cacheKey = None \<longrightarrow>
            fst (fetchDataWithCache p endpoint cacheKey maxAge w)
              = Inl (Error ''No valid cached data available''))
       \<and> (\<forall>d t. store w cacheKey = Some (cache_entry d t) \<longrightarrow>
            fst (fetchDataWithCache p endpoint cacheKey maxAge w)
              = (if js_lt (js_sub (Date_now (snd (fetchDataWithCache p endpoint cacheKey maxAge w))) t)
                      maxAge
                 then Inr d else Inl (Error ''No valid cached data available'')))
       \<and> snd (fetchDataWithCache p endpoint cacheKey maxAge w)
            = elapse (emit (StoreGet cacheKey) (elapse (emit NetStatus w)))
       \<and> store (snd (fetchDataWithCache p endpoint cacheKey maxAge w)) = store w
       \<and> trace (snd (fetchDataWithCache p endpoint cacheKey maxAge w))
            = trace w @ [NetStatus, StoreGet cacheKey]"
proof -
  let ?w2 = "elapse (emit (StoreGet cacheKey) (elapse (emit NetStatus w)))"
  let ?E = "Inl (Error ''No valid cached data available'') :: thrown + jsval"
  have run: "fetchDataWithCache p endpoint cacheKey maxAge w
      = (case store w cacheKey of
           None \<Rightarrow> ?E
         | Some v \<Rightarrow>
             if truthy v \<and> js_lt (js_sub (Date_now ?w2) (to_number p (js_get v ''timestamp''))) maxAge
             then Inr (js_get v ''data'') else ?E,
         ?w2)"
    using assms
    by (simp add: fetchDataWithCache_def isOnline_def storage_get_def
        store_elapse store_emit split: option.splits)
  have falsy: "\<not> js_lt (js_sub (Date_now ?w2) (to_number p (js_get v ''timestamp''))) maxAge"
    if "\<not> truthy v" for v
    using that by (simp add: not_truthy_number js_sub_NaN)
  have general: "fst (fetchDataWithCache p endpoint cacheKey maxAge w)
      = (case store w cacheKey of
           None \<Rightarrow> ?E
         | Some v \<Rightarrow>
             if js_lt (js_sub (Date_now ?w2) (to_number p (js_get v ''timestamp''))) maxAge
             then Inr (js_get v ''data'') else ?E)"
    unfolding run using falsy by (auto split: option.splits)
  have world: "snd (fetchDataWithCache p endpoint cacheKey maxAge w) = ?w2"
    unfolding run by simp
  have entry: "fst (fetchDataWithCache p endpoint cacheKey maxAge w)
      = (if js_lt (js_sub (Date_now ?w2) t) maxAge then Inr d else ?E)"
    if "store w cacheKey = Some (cache_entry d t)" for d t
    unfolding general using that by (simp add: cache_entry_def)
  have none: "fst (fetchDataWithCache p endpoint cacheKey maxAge w) = ?E"
    if "store w cacheKey = None"
    unfolding general using that by simp
  have st: "store ?w2 = store w"
    by (simp add: store_elapse store_emit)
  have tr: "trace ?w2 = trace w @ [NetStatus, StoreGet cacheKey]"
    by (simp add: trace_elapse trace_emit)
  show ?thesis
    unfolding world
    by (intro conjI allI impI none entry) (use general st tr in simp_all)
qed

text \<open>
  At 1700000300015 ms an entry written 300015 ms earlier is served, one written
  10300015 ms earlier is refused, and so are a key with no entry and an entry with no
  timestamp. At 15 ms an entry stamped \<open>2^-60\<close> is refused for a maximum age of 15 ms,
  the difference being 15 in doubles.
\<close>

theorem fetchDataWithCache_offline_witness:
  "fst (fetchDataWithCache example_platform ''u'' ''k'' default_maxAge
          (offline_world ''k'' (cache_entry (JStr ''sunny'') (Fin 1700000000000))))
     = Inr (JStr ''sunny'')
   \<and> fst (fetchDataWithCache example_platform ''u'' ''k'' default_maxAge
          (offline_world ''k'' (cache_entry (JStr ''sunny'') (Fin 1699990000000))))
     = Inl (Error ''No valid cached data available'')
   \<and> fst (fetchDataWithCache example_platform ''u'' ''other'' default_maxAge
          (offline_world ''k'' (cache_entry (JStr ''sunny'') (Fin 1700000000000))))
     = Inl (Error ''No valid cached data available'')
   \<and> fst (fetchDataWithCache example_platform ''u'' ''k'' default_maxAge
          (offline_world ''k'' (JObj [(''data'', JStr ''old'')])))
     = Inl (Error ''No valid cached data available'')
   \<and> fst (fetchDataWithCache example_platform ''u'' ''k'' (Fin 15)
          (offline_world_at 15 ''k'' (cache_entry (JStr ''sunny'') (Fin (1 / 2 ^ 60)))))
     = Inl (Error ''No valid cached data available'')"
proof -
  have fresh: "fst (fetchDataWithCache example_platform ''u'' ''k'' default_maxAge
          (offline_world ''k'' (cache_entry (JStr ''sunny'') (Fin 1700000000000))))
     = Inr (JStr ''sunny'')"
    using fetchDataWithCache_offline [where w = "offline_world ''k'' (cache_entry (JStr ''sunny'') (Fin 1700000000000))"
        and p = example_platform and endpoint = "''u''" and cacheKey = "''k''" and maxAge = default_maxAge]
    by (simp add: offline_world_def default_maxAge_def Date_now_def elapse_def emit_def
        cache_entry_def round_exact)
  have stale: "fst (fetchDataWithCache example_platform ''u'' ''k'' default_maxAge
          (offline_world ''k'' (cache_entry (JStr ''sunny'') (Fin 1699990000000))))
     = Inl (Error ''No valid cached data available'')"
    using fetchDataWithCache_offline [where w = "offline_world ''k'' (cache_entry (JStr ''sunny'') (Fin 1699990000000))"
        and p = example_platform and endpoint = "''u''" and cacheKey = "''k''" and maxAge = default_maxAge]
    by (simp add: offline_world_def default_maxAge_def Date_now_def elapse_def emit_def
        cache_entry_def round_exact)
  have missing: "fst (fetchDataWithCache example_platform ''u'' ''other'' default_maxAge
          (offline_world ''k'' (cache_entry (JStr ''sunny'') (Fin 1700000000000))))
     = Inl (Error ''No valid cached data available'')"
    using fetchDataWithCache_offline [where w = "offline_world ''k'' (cache_entry (JStr ''sunny'') (Fin 1700000000000))"
        and p = example_platform and endpoint = "''u''" and cacheKey = "''other''" and maxAge = default_maxAge]
    by (simp add: offline_world_def cache_entry_def)
  have unstamped: "fst (fetchDataWithCache example_platform ''u'' ''k'' default_maxAge
          (offline_world ''k'' (JObj [(''data'', JStr ''old'')])))
     = Inl (Error ''No valid cached data available'')"
    using fetchDataWithCache_offline [where w = "offline_world ''k'' (JObj [(''data'', JStr ''old'')])"
        and p = example_platform and endpoint = "''u''" and cacheKey = "''k''" and maxAge = default_maxAge]
    by (simp add: offline_world_def cache_entry_def js_sub_NaN)
  have rounded: "fst (fetchDataWithCache example_platform ''u'' ''k'' (Fin 15)
          (offline_world_at 15 ''k'' (cache_entry (JStr ''sunny'') (Fin (1 / 2 ^ 60)))))
     = Inl (Error ''No valid cached data available'')"
    using fetchDataWithCache_offline [where w = "offline_world_at 15 ''k'' (cache_entry (JStr ''sunny'') (Fin (1 / 2 ^ 60)))"
        and p = example_platform and endpoint = "''u''" and cacheKey = "''k''" and maxAge = "Fin 15"] js_sub_rounds
    by (simp add: offline_world_at_def Date_now_def elapse_def emit_def cache_entry_def)
  show ?thesis
    using fresh stale missing unstamped rounded by simp
qed

text \<open>
  Claim C2. Online, when the HTTP GET to \<open>endpoint\<close> answers with data \<open>D\<close>, the call
  returns \<open>D\<close> and the store then holds \<^verbatim>\<open>{ data: D, timestamp: t }\<close> under \<open>cacheKey\<close>, for
  a clock reading \<open>t\<close> between the start of the call and its completion. The call asks for
  the network status, sends the one GET and issues the one write.
\<close>

theorem fetchDataWithCache_online:
  assumes "net_connected w" and "http w endpoint = Inr D"
  shows "fst (fetchDataWithCache p endpoint cacheKey maxAge w) = Inr D
       \<and> (\<exists>t. store (snd (fetchDataWithCache p endpoint cacheKey maxAge w)) cacheKey
                 = Some (cache_entry D (Fin (of_nat t)))
              \<and> trace (snd (fetchDataWithCache p endpoint cacheKey maxAge w))
                 = trace w @ [NetStatus, HttpGet endpoint,
                              StoreSet cacheKey (cache_entry D (Fin (of_nat t)))]
              \<and> clock w \<le> t
              \<and> t \<le> clock (snd (fetchDataWithCache p endpoint cacheKey maxAge w)))"
proof -
  let ?w2 = "elapse (emit (HttpGet endpoint) (elapse (emit NetStatus w)))"
  have res: "fetchDataWithCache p endpoint cacheKey maxAge w
      = (Inr D, storage_set cacheKey (cache_entry D (Date_now ?w2)) ?w2)"
    using assms
    by (simp add: fetchDataWithCache_def isOnline_def http_get_def elapse_def emit_def
        split: list.splits)
  have "clock w \<le> clock (elapse (emit NetStatus w))"
    using clock_elapse [of "emit NetStatus w"] by (simp add: clock_emit)
  also have "\<dots> \<le> clock ?w2"
    using clock_elapse [of "emit (HttpGet endpoint) (elapse (emit NetStatus w))"]
    by (simp add: clock_emit)
  finally have "clock w \<le> clock ?w2" .
  moreover have "trace ?w2 = trace w @ [NetStatus, HttpGet endpoint]"
    by (simp add: trace_elapse trace_emit)
  ultimately show ?thesis
    unfolding res
    by (auto simp: storage_set_def emit_def Date_now_def intro!: exI [of _ "clock ?w2"])
qed

theorem fetchDataWithCache_online_witness:
  "fst (fetchDataWithCache example_platform ''u'' ''k'' default_maxAge (online_world (JStr ''rain'')))
     = Inr (JStr ''rain'')
   \<and> (\<exists>t. store (snd (fetchDataWithCache example_platform ''u'' ''k'' default_maxAge
                        (online_world (JStr ''rain'')))) ''k''
             = Some (cache_entry (JStr ''rain'') (Fin (of_nat t)))
          \<and> trace (snd (fetchDataWithCache example_platform ''u'' ''k'' default_maxAge
                        (online_world (JStr ''rain''))))
             = [NetStatus, HttpGet ''u'', StoreSet ''k'' (cache_entry (JStr ''rain'') (Fin (of_nat t)))]
          \<and> 1700000300000 \<le> t
          \<and> t \<le> clock (snd (fetchDataWithCache example_platform ''u'' ''k'' default_maxAge
                               (online_world (JStr ''rain'')))))"
  using fetchDataWithCache_online [of "online_world (JStr ''rain'')" "''u''" "JStr ''rain''"
      example_platform "''k''" default_maxAge]
  by (simp add: online_world_def)

section \<open>The location resolver\<close>

text \<open>
  Claim C3. Offline, with a Location object (an object like
  \<^verbatim>\<open>{ latitude, longitude, city }\<close>) stored under \<^verbatim>\<open>currentLocation\<close>,
  \<^verbatim>\<open>getCurrentLocation()\<close> returns exactly that object. It asks for the network status and
  reads the store, and does nothing else: the geolocation plugin is not asked, nothing is
  written, no alert is shown.
\<close>

theorem getCurrentLocation_offline:
  assumes "\<not> net_connected w" and "store w ''currentLocation'' = Some (JObj L)"
  shows "getCurrentLocation p w
           = (Inr (JObj L), elapse (emit (StoreGet ''currentLocation'') (elapse (emit NetStatus w))))
       \<and> store (snd (getCurrentLocation p w)) = store w
       \<and> trace (snd (getCurrentLocation p w)) = trace w @ [NetStatus, StoreGet ''currentLocation'']"
  using assms
  by (simp add: getCurrentLocation_def getCurrentLocation_try_def isOnline_def storage_get_def
      store_elapse store_emit trace_elapse trace_emit)

theorem getCurrentLocation_offline_witness:
  "fst (getCurrentLocation example_platform
          (offline_world ''currentLocation''
             (JObj [(''latitude'', JNum (Fin 14.5995)), (''longitude'', JNum (Fin 120.9842)),
                    (''city'', JStr ''Manila'')])))
     = Inr (JObj [(''latitude'', JNum (Fin 14.5995)), (''longitude'', JNum (Fin 120.9842)),
                  (''city'', JStr ''Manila'')])
   \<and> trace (snd (getCurrentLocation example_platform
          (offline_world ''currentLocation''
             (JObj [(''latitude'', JNum (Fin 14.5995)), (''longitude'', JNum (Fin 120.9842)),
                    (''city'', JStr ''Manila'')]))))
     = [NetStatus, StoreGet ''currentLocation'']"
  using getCurrentLocation_offline [of "offline_world ''currentLocation''
             (JObj [(''latitude'', JNum (Fin 14.5995)), (''longitude'', JNum (Fin 120.9842)),
                    (''city'', JStr ''Manila'')])"
       "[(''latitude'', JNum (Fin 14.5995)), (''longitude'', JNum (Fin 120.9842)),
                    (''city'', JStr ''Manila'')]" example_platform]
  by (simp add: offline_world_def elapse_def emit_def)

section \<open>Current weather\<close>

lemma getWeatherData_success:
  "fst (fetchDataWithCache p (weather_url p la lo) (weather_cacheKey p la lo) default_maxAge w) = Inr d \<Longrightarrow>
   getWeatherData p la lo w
     = (Inr (with_sun_times p d),
        snd (fetchDataWithCache p (weather_url p la lo) (weather_cacheKey p la lo) default_maxAge w))"
  by (cases "fetchDataWithCache p (weather_url p la lo) (weather_cacheKey p la lo) default_maxAge w")
    (simp add: getWeatherData_def Let_def)

lemma toLocaleTimeString_clock12:
  "is_clock12 (period_sep p) (toLocaleTimeString p (Some ms))"
proof -
  define md where "md = nat (((ms + tz_offset p ms * 60000) div 60000) mod 1440)"
  define h24 where "h24 = md div 60"
  have md: "md < 1440" unfolding md_def by simp
  then have h24: "h24 < 24" unfolding h24_def by simp
  define h where "h = (if h24 mod 12 = 0 then 12 else h24 mod 12)"
  have h: "h \<in> {1..12}" unfolding h_def by (auto simp: Suc_le_eq)
  have m: "md mod 60 \<in> {0..<60}" by simp
  have eq: "toLocaleTimeString p (Some ms) = clock12 (period_sep p) h (md mod 60) (12 \<le> h24)"
    by (simp add: toLocaleTimeString_def Let_def md_def h24_def h_def)
  show ?thesis
    unfolding is_clock12_def eq using h m by blast
qed

lemma sunrise_1700000000:
  "convertUnixToLocalTime p (JNum (Fin 1700000000)) = toLocaleTimeString p (Some 1700000000000)"
  by (simp add: convertUnixToLocalTime_def round_exact)

lemma with_sun_times_other:
  "k \<noteq> ''sunrise'' \<Longrightarrow> k \<noteq> ''sunset'' \<Longrightarrow> js_get (with_sun_times p d) k = js_get d k"
  by (cases d) (simp_all add: with_sun_times_def Let_def update_conv')

lemma with_sun_times_sunrise:
  "truthy (js_get d ''main'') \<Longrightarrow>
   js_get (with_sun_times p d) ''sunrise'' =
     (let sunrise = js_get (if truthy (js_get d ''sys'') then js_get d ''sys'' else JObj []) ''sunrise''
      in if truthy sunrise then JStr (convertUnixToLocalTime p sunrise) else JNull)"
  by (cases d) (simp_all add: with_sun_times_def Let_def update_conv')

lemma with_sun_times_sunset:
  "truthy (js_get d ''main'') \<Longrightarrow>
   js_get (with_sun_times p d) ''sunset'' =
     (let sunset = js_get (if truthy (js_get d ''sys'') then js_get d ''sys'' else JObj []) ''sunset''
      in if truthy sunset then JStr (convertUnixToLocalTime p sunset) else JNull)"
  by (cases d) (simp_all add: with_sun_times_def Let_def update_conv')

lemma with_sun_times_no_main:
  "\<not> truthy (js_get d ''main'') \<Longrightarrow> with_sun_times p d = d"
  by (simp add: with_sun_times_def)

text \<open>
  Claim C6, as the service has it. The claim as written fails on a response without
  \<^verbatim>\<open>main\<close>: \<^verbatim>\<open>getWeatherData\<close> adds the two fields only under \<^verbatim>\<open>if (data?.main)\<close>, and
  otherwise hands the response back as it came, so a response
  \<^verbatim>\<open>{ sys: { sunrise: 1700000000 } }\<close> comes back with no \<^verbatim>\<open>sunrise\<close> field of its own, and the
  empty response comes back with no \<^verbatim>\<open>sunrise\<close> field either (it is \<^verbatim>\<open>undefined\<close>, not
  \<^verbatim>\<open>null\<close>).
\<close>

theorem getWeatherData_sun_times_counterexample:
  "fst (getWeatherData example_platform (Fin 0) (Fin 0)
          (online_world (JObj [(''sys'', JObj [(''sunrise'', JNum (Fin 1700000000))])])))
     = Inr (JObj [(''sys'', JObj [(''sunrise'', JNum (Fin 1700000000))])])
   \<and> js_get (JObj [(''sys'', JObj [(''sunrise'', JNum (Fin 1700000000))])]) ''sunrise'' = JUndefined
   \<and> fst (getWeatherData example_platform (Fin 0) (Fin 0) (online_world (JObj [])))
     = Inr (JObj [])
   \<and> js_get (JObj []) ''sunrise'' \<noteq> JNull"
  by (simp add: with_sun_times_def run_defs)

text \<open>
  Claim C6, amended. When the fetch succeeds with a response whose \<^verbatim>\<open>main\<close> is truthy,
  \<^verbatim>\<open>getWeatherData\<close> succeeds with an object \<open>r\<close> and leaves the world as the fetch left it;
  if the response has \<^verbatim>\<open>sys.sunrise = 1700000000\<close>, the \<^verbatim>\<open>sunrise\<close> of \<open>r\<close> is a string that
  is a 12-hour clock time, whatever the time zone; if the response has no \<^verbatim>\<open>sys\<close>, the
  \<^verbatim>\<open>sunrise\<close> and \<^verbatim>\<open>sunset\<close> of \<open>r\<close> are \<^verbatim>\<open>null\<close>; and every other field of \<open>r\<close> is the
  response's.
\<close>

theorem getWeatherData_sun_times:
  assumes "fst (fetchDataWithCache p (weather_url p la lo) (weather_cacheKey p la lo) default_maxAge w) = Inr d"
    and "truthy (js_get d ''main'')"
  shows "\<exists>r. getWeatherData p la lo w
               = (Inr r, snd (fetchDataWithCache p (weather_url p la lo) (weather_cacheKey p la lo)
                                default_maxAge w))
          \<and> (js_get (js_get d ''sys'') ''sunrise'' = JNum (Fin 1700000000) \<longrightarrow>
               (\<exists>s. js_get r ''sunrise'' = JStr s \<and> is_clock12 (period_sep p) s))
          \<and> (js_get d ''sys'' = JUndefined \<longrightarrow>
               js_get r ''sunrise'' = JNull \<and> js_get r ''sunset'' = JNull)
          \<and> (\<forall>k. k \<noteq> ''sunrise'' \<and> k \<noteq> ''sunset'' \<longrightarrow> js_get r k = js_get d k)"
proof -
  have sunrise: "\<exists>s. js_get (with_sun_times p d) ''sunrise'' = JStr s \<and> is_clock12 (period_sep p) s"
    if sr: "js_get (js_get d ''sys'') ''sunrise'' = JNum (Fin 1700000000)"
  proof -
    have "truthy (js_get d ''sys'')"
      using sr by (cases "js_get d ''sys''") simp_all
    then have "js_get (with_sun_times p d) ''sunrise''
        = JStr (toLocaleTimeString p (Some 1700000000000))"
      using assms(2) sr by (simp add: with_sun_times_sunrise sunrise_1700000000)
    then show ?thesis
      using toLocaleTimeString_clock12 by blast
  qed
  have nosys: "js_get (with_sun_times p d) ''sunrise'' = JNull
      \<and> js_get (with_sun_times p d) ''sunset'' = JNull"
    if "js_get d ''sys'' = JUndefined"
    using assms(2) that by (simp add: with_sun_times_sunrise with_sun_times_sunset)
  show ?thesis
    using getWeatherData_success [OF assms(1)] sunrise nosys with_sun_times_other
    by blast
qed

text \<open>On UTC, 1700000000 s is 22:13 on 14 November 2023.\<close>

theorem getWeatherData_sun_times_witness:
  "fst (getWeatherData example_platform (Fin 0) (Fin 0) (online_world example_weather))
     = Inr (JObj [(''main'', JObj [(''temp'', JNum (Fin 21))]),
                  (''sys'', JObj [(''sunrise'', JNum (Fin 1700000000))]),
                  (''name'', JStr ''Manila''),
                  (''sunrise'', JStr ''10:13 PM''),
                  (''sunset'', JNull)])
   \<and> is_clock12 '' '' ''10:13 PM''"
proof -
  have fetched: "fst (fetchDataWithCache example_platform
                   (weather_url example_platform (Fin 0) (Fin 0))
                   (weather_cacheKey example_platform (Fin 0) (Fin 0)) default_maxAge
                   (online_world example_weather)) = Inr example_weather"
    by (simp add: run_defs)
  have main: "truthy (js_get example_weather ''main'')"
    by (simp add: example_weather_def)
  have sunrise: "js_get (js_get example_weather ''sys'') ''sunrise'' = JNum (Fin 1700000000)"
    by (simp add: example_weather_def)
  have computed: "with_sun_times example_platform example_weather
      = JObj [(''main'', JObj [(''temp'', JNum (Fin 21))]),
                  (''sys'', JObj [(''sunrise'', JNum (Fin 1700000000))]),
                  (''name'', JStr ''Manila''),
                  (''sunrise'', JStr ''10:13 PM''),
                  (''sunset'', JNull)]"
    by (simp add: with_sun_times_def example_weather_def convertUnixToLocalTime_def
        toLocaleTimeString_def clock12_def hour_str_def two_digits_def digit_char_def
        example_platform_def round_exact)
  from getWeatherData_sun_times [OF fetched main] sunrise
  obtain r s where r: "getWeatherData example_platform (Fin 0) (Fin 0) (online_world example_weather)
         = (Inr r, snd (fetchDataWithCache example_platform
                   (weather_url example_platform (Fin 0) (Fin 0))
                   (weather_cacheKey example_platform (Fin 0) (Fin 0)) default_maxAge
                   (online_world example_weather)))"
    and s: "js_get r ''sunrise'' = JStr s" "is_clock12 (period_sep example_platform) s"
    by blast
  have "r = with_sun_times example_platform example_weather"
    using r getWeatherData_success [OF fetched] by simp
  then have "s = ''10:13 PM''"
    using s(1) computed by simp
  then show ?thesis
    using r s(2) computed \<open>r = with_sun_times example_platform example_weather\<close>
    by (simp add: example_platform_def)
qed

text \<open>
  Claim C10. When the fetch succeeds with a response that has no \<^verbatim>\<open>main\<close> field,
  \<^verbatim>\<open>getWeatherData\<close> returns the response as it is, with nothing added, and leaves the world
  as the fetch left it.
\<close>

theorem getWeatherData_no_main:
  assumes "fst (fetchDataWithCache p (weather_url p la lo) (weather_cacheKey p la lo) default_maxAge w) = Inr d"
    and "js_get d ''main'' = JUndefined"
  shows "getWeatherData p la lo w
           = (Inr d, snd (fetchDataWithCache p (weather_url p la lo) (weather_cacheKey p la lo)
                            default_maxAge w))"
  using getWeatherData_success [OF assms(1)] assms(2) by (simp add: with_sun_times_no_main)

theorem getWeatherData_no_main_witness:
  "getWeatherData example_platform (Fin 0) (Fin 0) (online_world (JObj [(''cod'', JStr ''404'')]))
     = (Inr (JObj [(''cod'', JStr ''404'')]),
        snd (fetchDataWithCache example_platform
               (weather_url example_platform (Fin 0) (Fin 0))
               (weather_cacheKey example_platform (Fin 0) (Fin 0)) default_maxAge
               (online_world (JObj [(''cod'', JStr ''404'')]))))"
proof -
  have fetched: "fst (fetchDataWithCache example_platform
                   (weather_url example_platform (Fin 0) (Fin 0))
                   (weather_cacheKey example_platform (Fin 0) (Fin 0)) default_maxAge
                   (online_world (JObj [(''cod'', JStr ''404'')]))) = Inr (JObj [(''cod'', JStr ''404'')])"
    by (simp add: run_defs)
  have nomain: "js_get (JObj [(''cod'', JStr ''404'')]) ''main'' = JUndefined"
    by simp
  show ?thesis
    using getWeatherData_no_main [OF fetched nomain] .
qed

text \<open>
  Claim C8. \<^verbatim>\<open>getVisibilityData(lat, lon)\<close> is \<^verbatim>\<open>getWeatherData(lat, lon)\<close>: the same result
  or error, and the same world afterwards (store, trace, clock), for all coordinates and
  every world.
\<close>

theorem getVisibilityData_alias:
  "getVisibilityData p la lo w = getWeatherData p la lo w"
  by (simp add: getVisibilityData_def)

theorem getVisibilityData_alias_witness:
  "fst (getVisibilityData example_platform (Fin 0) (Fin 0) (offline_world ''k'' JNull))
     = Inl (Error ''Failed to fetch weather data.'')
   \<and> fst (getWeatherData example_platform (Fin 0) (Fin 0) (offline_world ''k'' JNull))
     = Inl (Error ''Failed to fetch weather data.'')"
  using getVisibilityData_alias [of example_platform "Fin 0" "Fin 0" "offline_world ''k'' JNull"]
  by (simp add: run_defs)

section \<open>High and low temperature\<close>

lemma high_low_invalid:
  "\<not> Array_isArray (js_get d ''list'') \<Longrightarrow> high_low_of p d = Inl (Error ''Forecast data is invalid.'')"
  by (simp add: high_low_of_def)

lemma getHighLowTemperature_success:
  "fst (getWeeklyWeather p la lo w) = Inr d \<Longrightarrow>
   getHighLowTemperature p la lo w =
     (case high_low_of p d of
        Inr result \<Rightarrow> (Inr result, snd (getWeeklyWeather p la lo w))
      | Inl error \<Rightarrow>
          (Inl (Error (''Failed to fetch high/low temperatures: '' @ thrown_str error)),
           snd (getWeeklyWeather p la lo w)))"
  by (cases "getWeeklyWeather p la lo w") (simp add: getHighLowTemperature_def split: sum.splits)

lemma getHighLowTemperature_failure:
  "fst (getWeeklyWeather p la lo w) = Inl e \<Longrightarrow>
   getHighLowTemperature p la lo w =
     (Inl (Error (''Failed to fetch high/low temperatures: '' @ thrown_str e)),
      snd (getWeeklyWeather p la lo w))"
  by (cases "getWeeklyWeather p la lo w") (simp add: getHighLowTemperature_def split: sum.splits)

text \<open>
  Claim C4. When the weekly fetch succeeds with a response whose \<^verbatim>\<open>list\<close> is
  \<^verbatim>\<open>[{main:{temp:3.2}}, {main:{temp:-1.7}}, {main:{temp:10.0}}]\<close>, \<^verbatim>\<open>getHighLowTemperature\<close>
  returns \<^verbatim>\<open>{ high: 10, low: -2 }\<close>: the rounded maximum and the rounded minimum of the
  entries' \<^verbatim>\<open>main.temp\<close>. (The doubles nearest to 3.2 and -1.7 round as 3.2 and -1.7 do.)
\<close>

theorem getHighLowTemperature_example:
  assumes "fst (getWeeklyWeather p la lo w) = Inr d"
    and "js_get d ''list'' =
           JArr [JObj [(''main'', JObj [(''temp'', JNum (Fin 3.2))])],
                 JObj [(''main'', JObj [(''temp'', JNum (Fin (-1.7)))])],
                 JObj [(''main'', JObj [(''temp'', JNum (Fin 10.0))])]]"
  shows "getHighLowTemperature p la lo w
           = (Inr \<lparr>high = Fin 10, low = Fin (-2)\<rparr>, snd (getWeeklyWeather p la lo w))"
proof -
  have hi: "\<lfloor>21 / 2 :: rat\<rfloor> = 10" and lo: "\<lfloor>- (6 / 5) :: rat\<rfloor> = - 2"
    by (simp_all add: floor_eq_iff)
  have "truthy d" using assms(2) by (cases d) simp_all
  then have "high_low_of p d = Inr \<lparr>high = Fin 10, low = Fin (-2)\<rparr>"
    using assms(2)
    by (simp add: high_low_of_def entry_temp_def get_prop_def Math_max_def Math_min_def hi lo)
  then show ?thesis
    using getHighLowTemperature_success [OF assms(1)] by simp
qed

theorem getHighLowTemperature_example_witness:
  "fst (getHighLowTemperature example_platform (Fin 0) (Fin 0) (online_world example_forecast))
     = Inr \<lparr>high = Fin 10, low = Fin (- 2)\<rparr>"
proof -
  have fetched: "fst (getWeeklyWeather example_platform (Fin 0) (Fin 0) (online_world example_forecast))
      = Inr example_forecast"
    by (simp add: run_defs)
  have list: "js_get example_forecast ''list'' =
           JArr [JObj [(''main'', JObj [(''temp'', JNum (Fin 3.2))])],
                 JObj [(''main'', JObj [(''temp'', JNum (Fin (-1.7)))])],
                 JObj [(''main'', JObj [(''temp'', JNum (Fin 10.0))])]]"
    by (simp add: example_forecast_def)
  show ?thesis
    using getHighLowTemperature_example [OF fetched list] by simp
qed

text \<open>
  Claim C5, as the service has it. The claim as written fails where the response has no
  \<^verbatim>\<open>list\<close>: the \<^verbatim>\<open>Forecast data is invalid.\<close> error is thrown inside the pipe whose
  \<^verbatim>\<open>catchError\<close> wraps every error, so the caller gets the
  \<^verbatim>\<open>Failed to fetch high/low temperatures\<close> error here too, not the bare one.
\<close>

theorem getHighLowTemperature_invalid_counterexample:
  "fst (getWeeklyWeather example_platform (Fin 0) (Fin 0) (online_world (JObj [(''cod'', JStr ''200'')])))
     = Inr (JObj [(''cod'', JStr ''200'')])
   \<and> js_get (JObj [(''cod'', JStr ''200'')]) ''list'' = JUndefined
   \<and> fst (getHighLowTemperature example_platform (Fin 0) (Fin 0)
            (online_world (JObj [(''cod'', JStr ''200'')])))
       \<noteq> Inl (Error ''Forecast data is invalid.'')"
  by (simp add: getHighLowTemperature_def high_low_of_def run_defs)

text \<open>
  Claim C5, amended. When the weekly fetch succeeds with a response whose \<^verbatim>\<open>list\<close> is
  missing or not an array, \<^verbatim>\<open>getHighLowTemperature\<close> fails with the error
  \<^verbatim>\<open>Failed to fetch high/low temperatures: Error: Forecast data is invalid.\<close>; when the
  fetcher fails with an error \<open>e\<close>, it fails with
  \<^verbatim>\<open>Failed to fetch high/low temperatures: \<close> followed by \<open>e\<close> as a string. Either way the
  world is as the fetch left it.
\<close>

theorem getHighLowTemperature_errors:
  "(\<forall>d. fst (getWeeklyWeather p la lo w) = Inr d \<and> \<not> Array_isArray (js_get d ''list'') \<longrightarrow>
        getHighLowTemperature p la lo w
          = (Inl (Error ''Failed to fetch high/low temperatures: Error: Forecast data is invalid.''),
             snd (getWeeklyWeather p la lo w)))
   \<and> (\<forall>e. fst (getWeeklyWeather p la lo w) = Inl e \<longrightarrow>
        getHighLowTemperature p la lo w
          = (Inl (Error (''Failed to fetch high/low temperatures: '' @ thrown_str e)),
             snd (getWeeklyWeather p la lo w)))"
  by (simp add: getHighLowTemperature_success getHighLowTemperature_failure high_low_invalid)

theorem getHighLowTemperature_errors_witness:
  "fst (getHighLowTemperature example_platform (Fin 0) (Fin 0)
          (online_world (JObj [(''cod'', JStr ''200'')])))
     = Inl (Error ''Failed to fetch high/low temperatures: Error: Forecast data is invalid.'')
   \<and> fst (getHighLowTemperature example_platform (Fin 0) (Fin 0) (offline_world ''k'' JNull))
     = Inl (Error ''Failed to fetch high/low temperatures: Error: No valid cached data available'')"
proof -
  have ok: "fst (getWeeklyWeather example_platform (Fin 0) (Fin 0)
                  (online_world (JObj [(''cod'', JStr ''200'')])))
      = Inr (JObj [(''cod'', JStr ''200'')])"
    by (simp add: run_defs)
  have nolist: "\<not> Array_isArray (js_get (JObj [(''cod'', JStr ''200'')]) ''list'')"
    by simp
  have failed: "fst (getWeeklyWeather example_platform (Fin 0) (Fin 0) (offline_world ''k'' JNull))
      = Inl (Error ''No valid cached data available'')"
    by (simp add: run_defs)
  show ?thesis
    using getHighLowTemperature_errors [of example_platform "Fin 0" "Fin 0"
        "online_world (JObj [(''cod'', JStr ''200'')])"]
      getHighLowTemperature_errors [of example_platform "Fin 0" "Fin 0" "offline_world ''k'' JNull"]
      ok nolist failed
    by simp
qed

text \<open>
  Claim C9. When the weekly fetch succeeds with a response whose \<^verbatim>\<open>list\<close> is the empty
  array, \<^verbatim>\<open>getHighLowTemperature\<close> does not fail: it returns
  \<^verbatim>\<open>{ high: -Infinity, low: Infinity }\<close>, the rounded maximum and minimum of no numbers.
\<close>

theorem getHighLowTemperature_empty_list:
  assumes "fst (getWeeklyWeather p la lo w) = Inr d" and "js_get d ''list'' = JArr []"
  shows "getHighLowTemperature p la lo w
           = (Inr \<lparr>high = NegInf, low = PosInf\<rparr>, snd (getWeeklyWeather p la lo w))"
proof -
  have "truthy d" using assms(2) by (cases d) simp_all
  then have "high_low_of p d = Inr \<lparr>high = NegInf, low = PosInf\<rparr>"
    using assms(2) by (simp add: high_low_of_def Math_max_def Math_min_def)
  then show ?thesis
    using getHighLowTemperature_success [OF assms(1)] by simp
qed

theorem getHighLowTemperature_empty_list_witness:
  "fst (getHighLowTemperature example_platform (Fin 0) (Fin 0)
          (online_world (JObj [(''list'', JArr [])])))
     = Inr \<lparr>high = NegInf, low = PosInf\<rparr>"
proof -
  have fetched: "fst (getWeeklyWeather example_platform (Fin 0) (Fin 0)
                       (online_world (JObj [(''list'', JArr [])])))
      = Inr (JObj [(''list'', JArr [])])"
    by (simp add: run_defs)
  have list: "js_get (JObj [(''list'', JArr [])]) ''list'' = JArr []"
    by simp
  show ?thesis
    using getHighLowTemperature_empty_list [OF fetched list] by simp
qed

section \<open>Cache management\<close>



end
